theory Spec2Isabelle
  imports Complex_Main "HOL-Library.Code_Target_Nat"
begin

section \<open>JavaScript values and the remote service\<close>

text \<open>
  The data layer of \<^verbatim>\<open>js/models.js\<close> works on the values that
  \<^verbatim>\<open>response.json()\<close> yields, and on \<^verbatim>\<open>undefined\<close>, which a read of an
  absent property yields. Arrays and objects carry the reference they live at:
  \<^verbatim>\<open>===\<close> compares two of them by reference, never by content. \<open>JNum\<close> holds a
  finite number; a parsed JSON text is never \<^verbatim>\<open>NaN\<close>.
\<close>

type_synonym ref = nat

datatype jsval =
    JUndefined
  | JNull
  | JBool bool
  | JNum real
  | JStr string
  | JArr ref "jsval list"
  | JObj ref "(string \<times> jsval) list"

text \<open>
  What the source can throw. \<open>NetworkError\<close> is the rejection of \<^verbatim>\<open>fetch\<close>,
  \<open>SyntaxError\<close> that of \<^verbatim>\<open>response.json()\<close>, \<open>InvalidURL\<close> the \<^verbatim>\<open>TypeError\<close> of
  \<^verbatim>\<open>new URL(x)\<close> on an input that does not parse, and \<open>TypeError\<close> every other
  one: a property read on \<^verbatim>\<open>undefined\<close> or \<^verbatim>\<open>null\<close>, a call of something that is
  not a function.
\<close>

datatype js_error = TypeError | NetworkError | SyntaxError | InvalidURL

text \<open>The strict equality \<^verbatim>\<open>a === b\<close>; \<^verbatim>\<open>a !== b\<close> is its negation.\<close>

fun strict_eq :: "jsval \<Rightarrow> jsval \<Rightarrow> bool" where
  "strict_eq JUndefined JUndefined = True"
| "strict_eq JNull JNull = True"
| "strict_eq (JBool a) (JBool b) = (a = b)"
| "strict_eq (JNum a) (JNum b) = (a = b)"
| "strict_eq (JStr a) (JStr b) = (a = b)"
| "strict_eq (JArr a xs) (JArr b ys) = (a = b)"
| "strict_eq (JObj a ps) (JObj b qs) = (a = b)"
| "strict_eq v w = False"

text \<open>
  A property read \<^verbatim>\<open>v.k\<close>, and the same read made by a destructuring pattern
  \<^verbatim>\<open>{ k }\<close>. On \<^verbatim>\<open>undefined\<close> and \<^verbatim>\<open>null\<close> it throws. \<open>prop_of\<close> is the read on
  every other value: an object answers with its own property, or \<^verbatim>\<open>undefined\<close>
  when it has none of that name. The source reads the names \<^verbatim>\<open>story\<close>,
  \<^verbatim>\<open>user\<close>, \<^verbatim>\<open>token\<close>, \<^verbatim>\<open>username\<close>, \<^verbatim>\<open>name\<close>, \<^verbatim>\<open>createdAt\<close>, \<^verbatim>\<open>favorites\<close>,
  \<^verbatim>\<open>stories\<close>, \<^verbatim>\<open>ownStories\<close>, \<^verbatim>\<open>storyId\<close>, \<^verbatim>\<open>title\<close>, \<^verbatim>\<open>author\<close> and \<^verbatim>\<open>url\<close>
  only; none of them is inherited from a prototype, so a boolean, a number, a
  string and an array answer \<^verbatim>\<open>undefined\<close> to each.
\<close>

definition nullish :: "jsval \<Rightarrow> bool" where
  "nullish v = (v = JUndefined \<or> v = JNull)"

definition own :: "(string \<times> jsval) list \<Rightarrow> string \<Rightarrow> jsval" where
  "own ps k = (case map_of ps k of None \<Rightarrow> JUndefined | Some v \<Rightarrow> v)"

fun prop_of :: "jsval \<Rightarrow> string \<Rightarrow> jsval" where
  "prop_of (JObj a ps) k = own ps k"
| "prop_of v k = JUndefined"

text \<open>
  The remote service is the environment: what a call of \<^verbatim>\<open>fetch\<close> brings back
  is an input of each operation. \<open>Rejected\<close>: the promise of \<^verbatim>\<open>fetch\<close> rejects
  (no connection). \<open>NotJson\<close>: a response arrives and its body is not JSON.
  \<open>Json v\<close>: a response arrives and its body parses to \<open>v\<close>, whatever its
  status line says (\<^verbatim>\<open>fetch\<close> resolves on 4xx and 5xx as well, and the source
  never reads \<^verbatim>\<open>response.ok\<close>).
\<close>

datatype reply = Rejected | NotJson | Json jsval

text \<open>\<^verbatim>\<open>await fetch(...)\<close> alone, as addFavorite and removeFavorite do.\<close>

fun await_fetch :: "reply \<Rightarrow> js_error + unit" where
  "await_fetch Rejected = Inl NetworkError"
| "await_fetch NotJson = Inr ()"
| "await_fetch (Json v) = Inr ()"

text \<open>\<^verbatim>\<open>await fetch(...)\<close> followed by \<^verbatim>\<open>await response.json()\<close>.\<close>

fun await_json :: "reply \<Rightarrow> js_error + jsval" where
  "await_json Rejected = Inl NetworkError"
| "await_json NotJson = Inl SyntaxError"
| "await_json (Json v) = Inr v"

section \<open>Story\<close>

text \<open>
  No statement of the source assigns to a field of a Story after its
  constructor, and no statement compares two Story objects by reference, so a
  Story is the value of its six fields.
\<close>

record Story =
  storyId :: jsval
  title :: jsval
  author :: jsval
  url :: jsval
  username :: jsval
  createdAt :: jsval

text \<open>
  \<^verbatim>\<open>constructor({ storyId, title, author, url, username, createdAt })\<close>: the
  pattern throws on \<^verbatim>\<open>undefined\<close> and \<^verbatim>\<open>null\<close> and reads six properties of
  anything else.
\<close>

definition Story_new :: "jsval \<Rightarrow> js_error + Story" where
  "Story_new v =
     (if nullish v then Inl TypeError
      else Inr \<lparr>storyId = prop_of v ''storyId'', title = prop_of v ''title'',
                author = prop_of v ''author'', url = prop_of v ''url'',
                username = prop_of v ''username'', createdAt = prop_of v ''createdAt''\<rparr>)"

text \<open>
  \<^verbatim>\<open>new URL(x)\<close> is the browser's, not this repository's: getHostName takes
  it as the parameter \<open>URL_new\<close>. Of the object it builds, the source reads
  \<^verbatim>\<open>.host\<close>, which the URL standard computes from the host and the port of
  the parsed URL: the empty string for a null host, the host alone for a null
  port, the host, a colon and the port otherwise. The getter \<^verbatim>\<open>.hostname\<close> is
  the host alone, whatever the port.
\<close>

record URL =
  url_host :: "string option"
  url_port :: "nat option"

fun decimal :: "nat \<Rightarrow> string" where
  "decimal n =
     (if n < 10 then [''0123456789'' ! n]
      else decimal (n div 10) @ [''0123456789'' ! (n mod 10)])"

definition host :: "URL \<Rightarrow> string" where
  "host u =
     (case url_host u of
        None \<Rightarrow> []
      | Some h \<Rightarrow> (case url_port u of None \<Rightarrow> h | Some p \<Rightarrow> h @ '':'' @ decimal p))"

definition hostname :: "URL \<Rightarrow> string" where
  "hostname u = (case url_host u of None \<Rightarrow> [] | Some h \<Rightarrow> h)"

text \<open>\<^verbatim>\<open>getHostName() { return new URL(this.url).host; }\<close>\<close>

definition getHostName :: "(jsval \<Rightarrow> js_error + URL) \<Rightarrow> Story \<Rightarrow> js_error + string" where
  "getHostName URL_new this =
     (case URL_new (url this) of Inl e \<Rightarrow> Inl e | Inr u \<Rightarrow> Inr (host u))"

text \<open>
  The URL standard (WHATWG), as far as \<^verbatim>\<open>.host\<close> depends on it. \<open>URL_std\<close>
  answers \<open>Some\<close> with what \<^verbatim>\<open>new URL(x)\<close> does where the steps below determine
  it, and \<open>None\<close> where they do not: the value is, or holds, a number or an
  object (their strings are not modelled), the scheme is \<^verbatim>\<open>file\<close>, or the
  host is an IPv6 literal, has a percent sign (special schemes), a label that
  starts with \<^verbatim>\<open>xn--\<close>, or a character outside ASCII.
\<close>

text \<open>
  \<^verbatim>\<open>ToString\<close>: a string is itself; an array is its elements joined by commas,
  \<^verbatim>\<open>undefined\<close> and \<^verbatim>\<open>null\<close> among them as the empty string.
\<close>

fun ToString :: "jsval \<Rightarrow> string option"
  and join_elements :: "jsval list \<Rightarrow> string option" where
  "ToString JUndefined = Some ''undefined''"
| "ToString JNull = Some ''null''"
| "ToString (JBool b) = Some (if b then ''true'' else ''false'')"
| "ToString (JNum r) = None"
| "ToString (JStr s) = Some s"
| "ToString (JArr a xs) = join_elements xs"
| "ToString (JObj a ps) = None"
| "join_elements [] = Some []"
| "join_elements (x # xs) =
     (case (if nullish x then Some [] else ToString x) of
        None \<Rightarrow> None
      | Some s \<Rightarrow>
          if xs = [] then Some s
          else (case join_elements xs of None \<Rightarrow> None | Some t \<Rightarrow> Some (s @ '','' @ t)))"

text \<open>
  The parser first strips the C0 controls and spaces at both ends of the
  input and removes every tab and newline in it.
\<close>

definition c0_or_space :: "char \<Rightarrow> bool" where
  "c0_or_space c = ((of_char c :: nat) \<le> 32)"

definition tab_or_newline :: "char \<Rightarrow> bool" where
  "tab_or_newline c = (c \<in> set [CHR 0x09, CHR 0x0A, CHR 0x0D])"

definition url_input :: "string \<Rightarrow> string" where
  "url_input s =
     filter (\<lambda>c. \<not> tab_or_newline c)
       (dropWhile c0_or_space (rev (dropWhile c0_or_space (rev s))))"

definition lower_alpha :: "char \<Rightarrow> bool" where
  "lower_alpha c = (c \<in> set ''abcdefghijklmnopqrstuvwxyz'')"

definition upper_alpha :: "char \<Rightarrow> bool" where
  "upper_alpha c = (c \<in> set ''ABCDEFGHIJKLMNOPQRSTUVWXYZ'')"

definition ascii_digit :: "char \<Rightarrow> bool" where
  "ascii_digit c = (c \<in> set ''0123456789'')"

definition ascii_lower :: "char \<Rightarrow> char" where
  "ascii_lower c =
     (case map_of (zip ''ABCDEFGHIJKLMNOPQRSTUVWXYZ'' ''abcdefghijklmnopqrstuvwxyz'') c of
        None \<Rightarrow> c
      | Some l \<Rightarrow> l)"

text \<open>
  The scheme: a letter, then letters, digits, plus, minus and dots, up to a
  colon. There is no base URL, so an input without a scheme is a failure.
  \<open>split_scheme\<close> gives the scheme in lower case and what follows the colon.
\<close>

definition scheme_char :: "char \<Rightarrow> bool" where
  "scheme_char c =
     (lower_alpha c \<or> upper_alpha c \<or> ascii_digit c \<or> c \<in> set ''+-.'')"

definition split_scheme :: "string \<Rightarrow> (string \<times> string) option" where
  "split_scheme s =
     (case s of
        [] \<Rightarrow> None
      | c # cs \<Rightarrow>
          if lower_alpha c \<or> upper_alpha c
          then (case dropWhile scheme_char s of
                  [] \<Rightarrow> None
                | d # r \<Rightarrow>
                    if d = CHR '':'' then Some (map ascii_lower (takeWhile scheme_char s), r)
                    else None)
          else None)"

text \<open>The special schemes and their default ports; \<^verbatim>\<open>file\<close> is special too.\<close>

definition default_port :: "string \<Rightarrow> nat option" where
  "default_port scheme =
     map_of [(''http'', 80), (''https'', 443), (''ws'', 80), (''wss'', 443), (''ftp'', 21)] scheme"

fun split_dots :: "string \<Rightarrow> string list" where
  "split_dots [] = [] # []"
| "split_dots (c # cs) =
     (if c = CHR ''.'' then [] # split_dots cs
      else (case split_dots cs of [] \<Rightarrow> [c] # [] | l # ls \<Rightarrow> (c # l) # ls))"

text \<open>
  IPv4: a host whose last part (a final empty part aside) is made of digits,
  or is \<^verbatim>\<open>0x\<close> and hexadecimal digits, is an IPv4 address or a failure. Each
  part is a number in base 16 (\<^verbatim>\<open>0x\<close>), 8 (a leading zero) or 10; there are
  at most four; all but the last are below 256 and the last fills the bytes
  that remain.
\<close>

definition digit_value :: "char \<Rightarrow> nat" where
  "digit_value c =
     (if ascii_digit c then of_char c - 48 else of_char c - 87)"

definition radix_digit :: "nat \<Rightarrow> char \<Rightarrow> bool" where
  "radix_digit R c =
     (if R = 16 then ascii_digit c \<or> c \<in> set ''abcdef''
      else if R = 8 then c \<in> set ''01234567''
      else ascii_digit c)"

definition number_in :: "nat \<Rightarrow> string \<Rightarrow> nat option" where
  "number_in R ds =
     (if list_all (radix_digit R) ds
      then Some (foldl (\<lambda>n c. R * n + digit_value c) 0 ds)
      else None)"

definition ipv4_number :: "string \<Rightarrow> nat option" where
  "ipv4_number p =
     (if p = [] then None
      else if 2 \<le> length p \<and> take 2 p = ''0x'' then number_in 16 (drop 2 p)
      else if 2 \<le> length p \<and> hd p = CHR ''0'' then number_in 8 (tl p)
      else number_in 10 p)"

definition ipv4_parts :: "string \<Rightarrow> string list" where
  "ipv4_parts h =
     (let ps = split_dots h
      in if last ps = [] \<and> 1 < length ps then butlast ps else ps)"

definition ends_in_number :: "string \<Rightarrow> bool" where
  "ends_in_number h =
     (let p = last (ipv4_parts h)
      in (p \<noteq> [] \<and> list_all ascii_digit p) \<or> ipv4_number p \<noteq> None)"

fun all_some :: "'a option list \<Rightarrow> 'a list option" where
  "all_some [] = Some []"
| "all_some (None # xs) = None"
| "all_some (Some x # xs) = (case all_some xs of None \<Rightarrow> None | Some ys \<Rightarrow> Some (x # ys))"

definition ipv4_parse :: "string \<Rightarrow> string option" where
  "ipv4_parse h =
     (let ps = ipv4_parts h
      in if 4 < length ps then None
         else (case all_some (map ipv4_number ps) of
                 None \<Rightarrow> None
               | Some ns \<Rightarrow>
                   if list_ex (\<lambda>n. 255 < n) (butlast ns) then None
                   else if 256 ^ (5 - length ns) \<le> last ns then None
                   else (let a = last ns
                               + foldl (+) 0 (map (\<lambda>(i, n). n * 256 ^ (3 - i))
                                                 (zip [0 ..< length ns - 1] (butlast ns)))
                         in Some (decimal (a div 256 ^ 3) @ ''.'' @
                                  decimal (a div 256 ^ 2 mod 256) @ ''.'' @
                                  decimal (a div 256 mod 256) @ ''.'' @
                                  decimal (a mod 256)))))"

text \<open>
  The host of a special scheme. Outside the cases left open, the domain is put
  in lower case; a forbidden domain code point (a C0 control, a space, DEL or
  one of \<^verbatim>\<open>< > ^ |\<close>; the others cannot be left by now) is a failure.
\<close>

definition left_open :: "string \<Rightarrow> bool" where
  "left_open h =
     (list_ex (\<lambda>c. (127 :: nat) < of_char c \<or> c \<in> set ''%[]'') h
      \<or> list_ex (\<lambda>l. take 4 (map ascii_lower l) = ''xn--'') (split_dots h))"

definition forbidden_domain_char :: "char \<Rightarrow> bool" where
  "forbidden_domain_char c =
     ((of_char c :: nat) \<le> 32 \<or> (of_char c :: nat) = 127 \<or> c = CHR 0x5C
      \<or> c \<in> set ''#/:<>?@[]^|%'')"

definition special_host :: "string \<Rightarrow> (js_error + string) option" where
  "special_host h =
     (if left_open h then None
      else (let d = map ascii_lower h
            in if list_ex forbidden_domain_char d then Some (Inl InvalidURL)
               else if ends_in_number d
               then (case ipv4_parse d of
                       None \<Rightarrow> Some (Inl InvalidURL)
                     | Some a \<Rightarrow> Some (Inr a))
               else Some (Inr d)))"


text \<open>
  The host of any other scheme is opaque: a forbidden host code point is a
  failure, and the host is kept as it is written. (A control character or DEL
  would be percent-encoded; that is left open.)
\<close>

definition forbidden_host_char :: "char \<Rightarrow> bool" where
  "forbidden_host_char c =
     (c \<in> set [CHR 0x00, CHR 0x09, CHR 0x0A, CHR 0x0D, CHR 0x20, CHR 0x5C]
      \<or> c \<in> set ''#/:<>?@[]^|'')"

definition opaque_host :: "string \<Rightarrow> (js_error + string) option" where
  "opaque_host h =
     (if list_ex forbidden_host_char h then Some (Inl InvalidURL)
      else if list_ex (\<lambda>c. (of_char c :: nat) < 32 \<or> (126 :: nat) < of_char c) h then None
      else Some (Inr h))"

text \<open>
  The port: digits only, at most 65535; no digits, or the default port of the
  scheme, leave the port null.
\<close>

definition port_of :: "nat option \<Rightarrow> string \<Rightarrow> js_error + nat option" where
  "port_of dflt ds =
     (if list_all ascii_digit ds
      then (if ds = [] then Inr None
            else (let p = foldl (\<lambda>n c. 10 * n + digit_value c) 0 ds
                  in if 65535 < p then Inl InvalidURL
                     else if dflt = Some p then Inr None
                     else Inr (Some p)))
      else Inl InvalidURL)"

text \<open>
  Host and port are split at the first colon. An empty host is a failure
  before a colon and in a special scheme.
\<close>

definition parse_hostport :: "bool \<Rightarrow> nat option \<Rightarrow> string \<Rightarrow> (js_error + URL) option" where
  "parse_hostport special dflt hp =
     (if list_ex (\<lambda>c. c \<in> set ''[]'') hp then None
      else (let h = takeWhile (\<lambda>c. c \<noteq> CHR '':'') hp;
                ds = drop (length h + 1) hp
            in if h = [] \<and> (special \<or> length h < length hp) then Some (Inl InvalidURL)
               else (case (if special then special_host h else opaque_host h) of
                       None \<Rightarrow> None
                     | Some (Inl e) \<Rightarrow> Some (Inl e)
                     | Some (Inr name) \<Rightarrow>
                         (case port_of dflt ds of
                            Inl e \<Rightarrow> Some (Inl e)
                          | Inr p \<Rightarrow> Some (Inr \<lparr>url_host = Some name, url_port = p\<rparr>)))))"

text \<open>
  The authority ends at the first slash, question mark or hash, and in a
  special scheme at the first backslash. What precedes its last \<^verbatim>\<open>@\<close> is the
  credentials; an \<^verbatim>\<open>@\<close> with nothing after it is a failure.
\<close>

definition authority_end :: "bool \<Rightarrow> char \<Rightarrow> bool" where
  "authority_end special c = (c \<in> set ''/?#'' \<or> (special \<and> c = CHR 0x5C))"

definition parse_authority :: "bool \<Rightarrow> nat option \<Rightarrow> string \<Rightarrow> (js_error + URL) option" where
  "parse_authority special dflt s =
     (let auth = takeWhile (\<lambda>c. \<not> authority_end special c) s;
          hp = rev (takeWhile (\<lambda>c. c \<noteq> CHR ''@'') (rev auth))
      in if hp = [] \<and> CHR ''@'' \<in> set auth then Some (Inl InvalidURL)
         else parse_hostport special dflt hp)"

text \<open>
  After a special scheme every slash and backslash before the authority is
  skipped. After another scheme two slashes start an authority; without them
  the URL has a path only and its host is null. Path, query and fragment
  never fail.
\<close>

definition parse_URL :: "string \<Rightarrow> (js_error + URL) option" where
  "parse_URL input =
     (case split_scheme (url_input input) of
        None \<Rightarrow> Some (Inl InvalidURL)
      | Some (scheme, rest) \<Rightarrow>
          if scheme = ''file'' then None
          else (case default_port scheme of
                  Some p \<Rightarrow>
                    parse_authority True (Some p)
                      (dropWhile (\<lambda>c. c = CHR ''/'' \<or> c = CHR 0x5C) rest)
                | None \<Rightarrow>
                    if take 2 rest = ''//'' then parse_authority False None (drop 2 rest)
                    else Some (Inr \<lparr>url_host = None, url_port = None\<rparr>)))"

definition URL_std :: "jsval \<Rightarrow> (js_error + URL) option" where
  "URL_std v = (case ToString v of None \<Rightarrow> None | Some s \<Rightarrow> parse_URL s)"

text \<open>
  \<open>URL_basic\<close> is \<^verbatim>\<open>new URL\<close> as a function to run getHostName with: the answer
  of \<open>URL_std\<close> wherever it has one. Where \<open>URL_std\<close> is \<open>None\<close> this theory says
  nothing about its value, and no statement below evaluates it there.
\<close>

definition URL_basic :: "jsval \<Rightarrow> js_error + URL" where
  "URL_basic v = the (URL_std v)"

text \<open>
  A valid absolute URI (RFC 3986) is a string: a scheme, a colon, and then
  unreserved and reserved characters and percent signs only.
  \<open>could_be_absolute_URI\<close> says that much and no more, so a url that fails it
  is no valid absolute URI.
\<close>

definition uri_char :: "char \<Rightarrow> bool" where
  "uri_char c =
     (lower_alpha c \<or> upper_alpha c \<or> ascii_digit c \<or> c = CHR 0x27
      \<or> c \<in> set ''-._~:/?#[]@!$&()*+,;=%'')"

fun could_be_absolute_URI :: "jsval \<Rightarrow> bool" where
  "could_be_absolute_URI (JStr s) = (split_scheme s \<noteq> None \<and> list_all uri_char s)"
| "could_be_absolute_URI v = False"

section \<open>StoryList\<close>

record StoryList =
  stories :: "Story list"

section \<open>User\<close>

text \<open>
  The fields \<^verbatim>\<open>username\<close>, \<^verbatim>\<open>name\<close> and \<^verbatim>\<open>createdAt\<close> of a User are
  \<open>user_username\<close>, \<open>user_name\<close> and \<open>user_createdAt\<close> here: a Story has fields
  of the same names. The favorites array is reached through its User alone
  (the constructor builds it with \<^verbatim>\<open>map\<close>), so a User is the value of its
  fields, handed to each method and handed back by it.
\<close>

record User =
  user_username :: jsval
  user_name :: jsval
  user_createdAt :: jsval
  favorites :: "Story list"
  ownStories :: "Story list"
  loginToken :: jsval

text \<open>
  \<^verbatim>\<open>xs.map(s => new Story(s))\<close> on the elements of an array: the first element
  whose construction throws ends the whole map.
\<close>

fun map_Story :: "jsval list \<Rightarrow> js_error + Story list" where
  "map_Story [] = Inr []"
| "map_Story (x # xs) =
     (case Story_new x of
        Inl e \<Rightarrow> Inl e
      | Inr s \<Rightarrow> (case map_Story xs of Inl e \<Rightarrow> Inl e | Inr ss \<Rightarrow> Inr (s # ss)))"

text \<open>
  A parameter \<^verbatim>\<open>favorites = []\<close> followed by \<^verbatim>\<open>favorites.map(s => new Story(s))\<close>:
  the default stands in for \<^verbatim>\<open>undefined\<close> only. \<^verbatim>\<open>null.map\<close> throws, and on
  every other value that is not an array \<^verbatim>\<open>.map\<close> is not a function.
\<close>

fun stories_or_default :: "jsval \<Rightarrow> js_error + Story list" where
  "stories_or_default JUndefined = Inr []"
| "stories_or_default (JArr a xs) = map_Story xs"
| "stories_or_default v = Inl TypeError"

text \<open>
  \<^verbatim>\<open>constructor({ username, name, createdAt, favorites = [], ownStories = [] }, token)\<close>.
  Each of the three callers passes an object literal, given here by its
  properties.
\<close>

definition User_new :: "(string \<times> jsval) list \<Rightarrow> jsval \<Rightarrow> js_error + User" where
  "User_new ps token =
     (case stories_or_default (own ps ''favorites'') of
        Inl e \<Rightarrow> Inl e
      | Inr favs \<Rightarrow>
          (case stories_or_default (own ps ''ownStories'') of
             Inl e \<Rightarrow> Inl e
           | Inr owns \<Rightarrow>
               Inr \<lparr>user_username = own ps ''username'', user_name = own ps ''name'',
                     user_createdAt = own ps ''createdAt'', favorites = favs,
                     ownStories = owns, loginToken = token\<rparr>))"

text \<open>
  \<^verbatim>\<open>signup\<close> and \<^verbatim>\<open>login\<close>: \<^verbatim>\<open>const { user } = userData\<close> throws on a body that
  is \<^verbatim>\<open>null\<close>, \<^verbatim>\<open>user.username\<close> throws when the body has no \<^verbatim>\<open>user\<close>. The
  arguments shape the request only.
\<close>

definition signup :: "reply \<Rightarrow> jsval \<Rightarrow> jsval \<Rightarrow> jsval \<Rightarrow> js_error + User" where
  "signup r p_username p_password p_name =
     (case await_json r of
        Inl e \<Rightarrow> Inl e
      | Inr userData \<Rightarrow>
          if nullish userData then Inl TypeError
          else (let user = prop_of userData ''user''
                in if nullish user then Inl TypeError
                   else User_new
                          [(''username'', prop_of user ''username''),
                           (''name'', prop_of user ''name''),
                           (''createdAt'', prop_of user ''createdAt''),
                           (''favorites'', prop_of user ''favorites''),
                           (''ownStories'', prop_of user ''stories'')]
                          (prop_of userData ''token'')))"

definition login :: "reply \<Rightarrow> jsval \<Rightarrow> jsval \<Rightarrow> js_error + User" where
  "login r p_username p_password =
     (case await_json r of
        Inl e \<Rightarrow> Inl e
      | Inr userData \<Rightarrow>
          if nullish userData then Inl TypeError
          else (let user = prop_of userData ''user''
                in if nullish user then Inl TypeError
                   else User_new
                          [(''username'', prop_of user ''username''),
                           (''name'', prop_of user ''name''),
                           (''createdAt'', prop_of user ''createdAt''),
                           (''favorites'', prop_of user ''favorites''),
                           (''ownStories'', prop_of user ''stories'')]
                          (prop_of userData ''token'')))"

text \<open>
  \<^verbatim>\<open>loginViaStoredCredentials(token, username)\<close>: first the body of its
  \<^verbatim>\<open>try\<close>, then the whole function, whose \<^verbatim>\<open>catch\<close> logs to the console and
  returns \<^verbatim>\<open>null\<close> (\<open>None\<close>).
\<close>

definition loginViaStoredCredentials_try :: "reply \<Rightarrow> jsval \<Rightarrow> jsval \<Rightarrow> js_error + User" where
  "loginViaStoredCredentials_try r token p_username =
     (case await_json r of
        Inl e \<Rightarrow> Inl e
      | Inr userData \<Rightarrow>
          if nullish userData then Inl TypeError
          else (let user = prop_of userData ''user''
                in if nullish user then Inl TypeError
                   else User_new
                          [(''username'', prop_of user ''username''),
                           (''name'', prop_of user ''name''),
                           (''createdAt'', prop_of user ''createdAt''),
                           (''favorites'', prop_of user ''favorites''),
                           (''ownStories'', prop_of user ''stories'')]
                          token))"

definition loginViaStoredCredentials ::
  "reply \<Rightarrow> jsval \<Rightarrow> jsval \<Rightarrow> js_error + User option" where
  "loginViaStoredCredentials r token p_username =
     (case loginViaStoredCredentials_try r token p_username of
        Inl err \<Rightarrow> Inr None
      | Inr u \<Rightarrow> Inr (Some u))"

text \<open>
  \<^verbatim>\<open>addFavorite(story)\<close>: the push comes first, the await after it. The User
  returned is the receiver as the call leaves it, with the outcome of the
  call beside it: the rejection of \<^verbatim>\<open>fetch\<close> reaches the caller and undoes
  nothing.
\<close>

definition addFavorite :: "reply \<Rightarrow> User \<Rightarrow> Story \<Rightarrow> User \<times> (js_error + unit)" where
  "addFavorite r this story =
     (let this' = this\<lparr>favorites := favorites this @ [story]\<rparr>
      in (this', await_fetch r))"

text \<open>\<^verbatim>\<open>removeFavorite(story)\<close>: the filter comes first, the await after it.\<close>

definition removeFavorite :: "reply \<Rightarrow> User \<Rightarrow> Story \<Rightarrow> User \<times> (js_error + unit)" where
  "removeFavorite r this story =
     (let this' = this\<lparr>favorites :=
            filter (\<lambda>s. \<not> strict_eq (storyId s) (storyId story)) (favorites this)\<rparr>
      in (this', await_fetch r))"

text \<open>\<^verbatim>\<open>isFavorite(story)\<close>: the \<^verbatim>\<open>for ... of\<close> loop over the favorites.\<close>

fun isFavorite_loop :: "Story list \<Rightarrow> Story \<Rightarrow> bool" where
  "isFavorite_loop [] story = False"
| "isFavorite_loop (s # ss) story =
     (if strict_eq (storyId s) (storyId story) then True else isFavorite_loop ss story)"

definition isFavorite :: "User \<Rightarrow> Story \<Rightarrow> bool" where
  "isFavorite this story = isFavorite_loop (favorites this) story"

section \<open>StoryList.addStory\<close>

text \<open>
  \<^verbatim>\<open>addStory(currentUser, newStory)\<close>, placed after User, whose \<open>loginToken\<close>
  it reads. \<^verbatim>\<open>unshift\<close> puts the Story in front of the array. The receiver comes back beside the
  outcome: untouched when a step throws, with the new Story in front when none
  does. Reading \<^verbatim>\<open>newStory.author\<close> for the request throws on \<^verbatim>\<open>undefined\<close>
  and \<^verbatim>\<open>null\<close>; so does \<^verbatim>\<open>data.story\<close> when the body is the JSON \<^verbatim>\<open>null\<close>.
\<close>

definition addStory ::
  "reply \<Rightarrow> StoryList \<Rightarrow> User \<Rightarrow> jsval \<Rightarrow> StoryList \<times> (js_error + Story)" where
  "addStory r this currentUser newStory =
     (let userToken = loginToken currentUser
      in if nullish newStory then (this, Inl TypeError)
         else (case await_json r of
                 Inl e \<Rightarrow> (this, Inl e)
               | Inr data \<Rightarrow>
                   if nullish data then (this, Inl TypeError)
                   else (case Story_new (prop_of data ''story'') of
                           Inl e \<Rightarrow> (this, Inl e)
                         | Inr story \<Rightarrow> (this\<lparr>stories := story # stories this\<rparr>, Inr story))))"

section \<open>Sequences of calls, uniqueness, scenario data\<close>

text \<open>
  A session calls addFavorite and removeFavorite one after the other, each with
  the reply the service gives to it. A call that throws leaves the User as its
  local step made it, and the next call starts from there.
\<close>

datatype favorite_call = AddFavorite Story reply | RemoveFavorite Story reply

fun after_calls :: "User \<Rightarrow> favorite_call list \<Rightarrow> User" where
  "after_calls u [] = u"
| "after_calls u (AddFavorite s r # cs) = after_calls (fst (addFavorite r u s)) cs"
| "after_calls u (RemoveFavorite s r # cs) = after_calls (fst (removeFavorite r u s)) cs"

text \<open>Every addFavorite of the sequence is made with a story that is not a favorite then.\<close>

fun adds_new_only :: "User \<Rightarrow> favorite_call list \<Rightarrow> bool" where
  "adds_new_only u [] = True"
| "adds_new_only u (AddFavorite s r # cs) =
     (\<not> isFavorite u s \<and> adds_new_only (fst (addFavorite r u s)) cs)"
| "adds_new_only u (RemoveFavorite s r # cs) = adds_new_only (fst (removeFavorite r u s)) cs"

text \<open>No two entries of the sequence have storyIds that are \<^verbatim>\<open>===\<close>.\<close>

fun unique_storyIds :: "Story list \<Rightarrow> bool" where
  "unique_storyIds [] = True"
| "unique_storyIds (s # ss) = (\<not> isFavorite_loop ss s \<and> unique_storyIds ss)"

text \<open>
  The data of the scenarios: a StoryRecord as the service sends it, the Story
  built from it, a reply of the service with a UserRecord and a token, and the
  User built from it.
\<close>

definition demo_record :: "ref \<Rightarrow> string \<Rightarrow> string \<Rightarrow> jsval" where
  "demo_record a sid link =
     JObj a [(''storyId'', JStr sid), (''title'', JStr ''T''), (''author'', JStr ''A''),
             (''url'', JStr link), (''username'', JStr ''u''),
             (''createdAt'', JStr ''2024-05-01T10:00:00.000Z'')]"

definition demo_story :: "string \<Rightarrow> string \<Rightarrow> Story" where
  "demo_story sid link =
     \<lparr>storyId = JStr sid, title = JStr ''T'', author = JStr ''A'', url = JStr link,
      username = JStr ''u'', createdAt = JStr ''2024-05-01T10:00:00.000Z''\<rparr>"

definition demo_profile :: "jsval list \<Rightarrow> jsval list \<Rightarrow> reply" where
  "demo_profile fs ss =
     Json (JObj 1 [(''user'', JObj 2 [(''username'', JStr ''u''), (''name'', JStr ''N''),
                                      (''createdAt'', JStr ''2024-04-01T09:00:00.000Z''),
                                      (''favorites'', JArr 3 fs), (''stories'', JArr 4 ss)]),
                   (''token'', JStr ''tok'')])"

definition demo_user :: "Story list \<Rightarrow> Story list \<Rightarrow> jsval \<Rightarrow> User" where
  "demo_user fs ss t =
     \<lparr>user_username = JStr ''u'', user_name = JStr ''N'',
      user_createdAt = JStr ''2024-04-01T09:00:00.000Z'',
      favorites = fs, ownStories = ss, loginToken = t\<rparr>"

section \<open>Properties\<close>

subsection \<open>Auxiliary facts\<close>

lemma strict_eq_refl: "strict_eq v v"
  by (cases v) simp_all

lemma isFavorite_loop_append:
  "isFavorite_loop (xs @ ys) t = (isFavorite_loop xs t \<or> isFavorite_loop ys t)"
  by (induction xs) simp_all

lemma isFavorite_loop_filter:
  "\<not> isFavorite_loop (filter (\<lambda>s. \<not> strict_eq (storyId s) (storyId t)) xs) t"
  by (induction xs) simp_all

lemma map_Story_elementwise: "(map_Story xs = Inr S) = (map Story_new xs = map Inr S)"
proof (induction xs arbitrary: S)
  case Nil
  then show ?case by auto
next
  case (Cons x xs)
  show ?case
  proof (cases "Story_new x")
    case (Inl e)
    then show ?thesis by (cases S) auto
  next
    case (Inr s)
    note sx = this
    show ?thesis
    proof (cases "map_Story xs")
      case (Inl e)
      with Cons.IH sx show ?thesis by (cases S) auto
    next
      case (Inr ss)
      with Cons.IH sx show ?thesis by (cases S) auto
    qed
  qed
qed

lemma prop_of_nullish: "nullish v \<Longrightarrow> prop_of v k = JUndefined"
  by (auto simp: nullish_def)

lemma prop_of_JArr_not_nullish: "prop_of v k = JArr a xs \<Longrightarrow> \<not> nullish v"
  by (auto simp: nullish_def)

lemma stories_or_default_cases:
  "stories_or_default v = Inr S \<Longrightarrow>
     (v = JUndefined \<and> S = []) \<or> (\<exists>a xs. v = JArr a xs \<and> map Story_new xs = map Inr S)"
  by (cases v) (auto simp: map_Story_elementwise)

lemma User_new_arrays:
  assumes "own ps ''favorites'' = JArr a fs" and "own ps ''ownStories'' = JArr b ss"
    and "map Story_new fs = map Inr F" and "map Story_new ss = map Inr S"
  shows "\<exists>u. User_new ps token = Inr u \<and> favorites u = F \<and> ownStories u = S \<and> loginToken u = token"
proof -
  from assms(3) have "map_Story fs = Inr F" by (simp add: map_Story_elementwise)
  moreover from assms(4) have "map_Story ss = Inr S" by (simp add: map_Story_elementwise)
  ultimately show ?thesis using assms(1,2) by (simp add: User_new_def)
qed

lemma Story_new_demo_record: "Story_new (demo_record a sid link) = Inr (demo_story sid link)"
  by (simp add: Story_new_def demo_record_def demo_story_def nullish_def own_def)

lemma strict_eq_sym: "strict_eq v w = strict_eq w v"
  by (cases v; cases w) auto

lemma unique_storyIds_snoc:
  "unique_storyIds (xs @ [s]) = (unique_storyIds xs \<and> \<not> isFavorite_loop xs s)"
  by (induction xs) (auto simp: isFavorite_loop_append strict_eq_sym)

lemma isFavorite_loop_filterD:
  "isFavorite_loop (filter P xs) t \<Longrightarrow> isFavorite_loop xs t"
  by (induction xs) (auto split: if_splits)

lemma unique_storyIds_filter:
  "unique_storyIds xs \<Longrightarrow> unique_storyIds (filter P xs)"
  by (induction xs) (auto dest: isFavorite_loop_filterD)

subsection \<open>StoryList.addStory\<close>

text \<open>
  C1. When the payload is an object and the service answers the creation with
  a body whose \<^verbatim>\<open>story\<close> property a Story can be built from, addStory returns
  that Story and leaves the receiver with it at index 0, the former stories
  after it in their former order, and a length greater by exactly 1. This
  holds for every StoryList and every User.
\<close>

theorem addStory_prepends:
  assumes "\<not> nullish newStory" and "r = Json data"
    and "Story_new (prop_of data ''story'') = Inr story"
  shows "addStory r this currentUser newStory = (this\<lparr>stories := story # stories this\<rparr>, Inr story)
       \<and> stories (fst (addStory r this currentUser newStory)) ! 0 = story
       \<and> drop 1 (stories (fst (addStory r this currentUser newStory))) = stories this
       \<and> length (stories (fst (addStory r this currentUser newStory))) = length (stories this) + 1"
proof -
  have "\<not> nullish data"
  proof
    assume "nullish data"
    then have "prop_of data ''story'' = JUndefined" by (rule prop_of_nullish)
    with assms(3) show False by (simp add: Story_new_def nullish_def)
  qed
  with assms have "addStory r this currentUser newStory = (this\<lparr>stories := story # stories this\<rparr>, Inr story)"
    by (simp add: addStory_def)
  then show ?thesis by simp
qed

text \<open>
  The scenario of the specification: stories 1 and 2 are stored, the service
  echoes story 3, the list is 3, 1, 2.
\<close>

theorem addStory_prepends_witness:
  "\<not> nullish (JObj 8 [(''author'', JStr ''A''), (''title'', JStr ''T''), (''url'', JStr ''http://x.com'')])
   \<and> Story_new (prop_of (JObj 9 [(''story'', demo_record 10 ''3'' ''http://x.com'')]) ''story'')
       = Inr (demo_story ''3'' ''http://x.com'')
   \<and> snd (addStory (Json (JObj 9 [(''story'', demo_record 10 ''3'' ''http://x.com'')]))
         \<lparr>stories = [demo_story ''1'' ''http://a.com'', demo_story ''2'' ''http://b.com'']\<rparr>
         (demo_user [] [] (JStr ''tok''))
         (JObj 8 [(''author'', JStr ''A''), (''title'', JStr ''T''), (''url'', JStr ''http://x.com'')]))
       = Inr (demo_story ''3'' ''http://x.com'')
   \<and> map storyId (stories (fst (addStory (Json (JObj 9 [(''story'', demo_record 10 ''3'' ''http://x.com'')]))
         \<lparr>stories = [demo_story ''1'' ''http://a.com'', demo_story ''2'' ''http://b.com'']\<rparr>
         (demo_user [] [] (JStr ''tok''))
         (JObj 8 [(''author'', JStr ''A''), (''title'', JStr ''T''), (''url'', JStr ''http://x.com'')]))))
       = [JStr ''3'', JStr ''1'', JStr ''2'']"
proof -
  have a: "\<not> nullish (JObj 8 [(''author'', JStr ''A''), (''title'', JStr ''T''), (''url'', JStr ''http://x.com'')])"
    by (simp add: nullish_def)
  have b: "Story_new (prop_of (JObj 9 [(''story'', demo_record 10 ''3'' ''http://x.com'')]) ''story'')
       = Inr (demo_story ''3'' ''http://x.com'')"
    by (simp add: own_def Story_new_demo_record)
  show ?thesis
    using a b addStory_prepends [OF a refl b,
        of "\<lparr>stories = [demo_story ''1'' ''http://a.com'', demo_story ''2'' ''http://b.com'']\<rparr>"
           "demo_user [] [] (JStr ''tok'')"]
    by (simp add: demo_story_def)
qed

subsection \<open>Uniqueness of the favorites\<close>

text \<open>
  C2, as stated, fails: addFavorite pushes without looking at the favorites.
  A User comes back from signup with no favorites; two calls of addFavorite
  with the same story leave two entries with the storyId \<^verbatim>\<open>"1"\<close>.
\<close>

theorem favorites_unique_counterexample:
  "signup (demo_profile [] []) (JStr ''u'') (JStr ''pw'') (JStr ''N'')
     = Inr (demo_user [] [] (JStr ''tok''))
   \<and> \<not> unique_storyIds (favorites (after_calls (demo_user [] [] (JStr ''tok''))
         [AddFavorite (demo_story ''1'' ''http://x.com'') (Json JNull),
          AddFavorite (demo_story ''1'' ''http://x.com'') (Json JNull)]))"
  by (simp add: signup_def demo_profile_def demo_user_def demo_story_def nullish_def own_def
      User_new_def addFavorite_def Let_def)

text \<open>
  C2, amended. From a User whose favorites hold at most one entry per storyId,
  every sequence of addFavorite and removeFavorite calls in which each
  addFavorite is made with a story that is not a favorite at that moment
  (isFavorite is false) leaves favorites with at most one entry per storyId,
  whatever the service replies to each call. removeFavorite needs no such
  condition.
\<close>

theorem favorites_unique_preserved:
  assumes "unique_storyIds (favorites u)" and "adds_new_only u cs"
  shows "unique_storyIds (favorites (after_calls u cs))"
  using assms
proof (induction u cs rule: after_calls.induct)
  case (1 u)
  then show ?case by simp
next
  case (2 u s r cs)
  from "2.prems" have "unique_storyIds (favorites (fst (addFavorite r u s)))"
    by (simp add: addFavorite_def Let_def unique_storyIds_snoc isFavorite_def)
  with "2.IH" "2.prems" show ?case by simp
next
  case (3 u s r cs)
  from "3.prems" have "unique_storyIds (favorites (fst (removeFavorite r u s)))"
    by (simp add: removeFavorite_def Let_def unique_storyIds_filter)
  with "3.IH" "3.prems" show ?case by simp
qed

text \<open>
  A run of it: story 2 is added (the call is rejected), story 1 is removed,
  story 1 is added again; the favorites end as 2, 1.
\<close>

theorem favorites_unique_preserved_witness:
  "unique_storyIds (favorites (demo_user [demo_story ''1'' ''http://x.com''] [] (JStr ''tok'')))
   \<and> adds_new_only (demo_user [demo_story ''1'' ''http://x.com''] [] (JStr ''tok''))
        [AddFavorite (demo_story ''2'' ''http://y.com'') Rejected,
         RemoveFavorite (demo_story ''1'' ''http://x.com'') NotJson,
         AddFavorite (demo_story ''1'' ''http://x.com'') (Json JNull)]
   \<and> unique_storyIds (favorites (after_calls
        (demo_user [demo_story ''1'' ''http://x.com''] [] (JStr ''tok''))
        [AddFavorite (demo_story ''2'' ''http://y.com'') Rejected,
         RemoveFavorite (demo_story ''1'' ''http://x.com'') NotJson,
         AddFavorite (demo_story ''1'' ''http://x.com'') (Json JNull)]))
   \<and> map storyId (favorites (after_calls
        (demo_user [demo_story ''1'' ''http://x.com''] [] (JStr ''tok''))
        [AddFavorite (demo_story ''2'' ''http://y.com'') Rejected,
         RemoveFavorite (demo_story ''1'' ''http://x.com'') NotJson,
         AddFavorite (demo_story ''1'' ''http://x.com'') (Json JNull)])) = [JStr ''2'', JStr ''1'']"
proof -
  have a: "unique_storyIds (favorites (demo_user [demo_story ''1'' ''http://x.com''] [] (JStr ''tok'')))"
    by (simp add: demo_user_def demo_story_def)
  have b: "adds_new_only (demo_user [demo_story ''1'' ''http://x.com''] [] (JStr ''tok''))
        [AddFavorite (demo_story ''2'' ''http://y.com'') Rejected,
         RemoveFavorite (demo_story ''1'' ''http://x.com'') NotJson,
         AddFavorite (demo_story ''1'' ''http://x.com'') (Json JNull)]"
    by (simp add: demo_user_def demo_story_def isFavorite_def addFavorite_def removeFavorite_def Let_def)
  show ?thesis
    using a b favorites_unique_preserved [OF a b]
    by (simp add: demo_user_def demo_story_def addFavorite_def removeFavorite_def Let_def)
qed

subsection \<open>addFavorite, removeFavorite and isFavorite\<close>

text \<open>
  C3. The User that addFavorite leaves has the story among its favorites, and
  the User that removeFavorite leaves has not, for every reply of the service:
  the push and the filter come before the await, and a rejection undoes
  neither, so the User left is the same for any two replies. (A storyId is a
  value of a parsed JSON body or \<^verbatim>\<open>undefined\<close>, and \<^verbatim>\<open>===\<close> holds between such
  a value and itself.)
\<close>

theorem isFavorite_after_local_mutation:
  "isFavorite (fst (addFavorite r u s)) s
   \<and> \<not> isFavorite (fst (removeFavorite r u s)) s
   \<and> fst (addFavorite r u s) = fst (addFavorite r' u s)
   \<and> fst (removeFavorite r u s) = fst (removeFavorite r' u s)"
  by (simp add: isFavorite_def addFavorite_def removeFavorite_def Let_def
      isFavorite_loop_append isFavorite_loop_filter strict_eq_refl)

text \<open>
  With the call rejected: addFavorite throws the \<open>NetworkError\<close> and the story
  is a favorite all the same.
\<close>

theorem isFavorite_after_local_mutation_witness:
  "isFavorite (fst (addFavorite Rejected (demo_user [] [] (JStr ''tok'')) (demo_story ''1'' ''http://a.com'')))
     (demo_story ''1'' ''http://a.com'')
   \<and> snd (addFavorite Rejected (demo_user [] [] (JStr ''tok'')) (demo_story ''1'' ''http://a.com''))
       = Inl NetworkError
   \<and> \<not> isFavorite (fst (removeFavorite Rejected
         (demo_user [demo_story ''1'' ''http://a.com''] [] (JStr ''tok'')) (demo_story ''1'' ''http://a.com'')))
       (demo_story ''1'' ''http://a.com'')"
  using isFavorite_after_local_mutation [where r = Rejected and r' = Rejected
        and u = "demo_user [] [] (JStr ''tok'')" and s = "demo_story ''1'' ''http://a.com''"]
    isFavorite_after_local_mutation [where r = Rejected and r' = Rejected
        and u = "demo_user [demo_story ''1'' ''http://a.com''] [] (JStr ''tok'')"
        and s = "demo_story ''1'' ''http://a.com''"]
  by (simp add: addFavorite_def Let_def)

text \<open>
  C4. removeFavorite is idempotent on the local state: a second call with the
  same story, whatever the two replies of the service, leaves the User (and so
  its favorites) as the first call left it.
\<close>

theorem removeFavorite_idempotent:
  "fst (removeFavorite r2 (fst (removeFavorite r1 u s)) s) = fst (removeFavorite r1 u s)
   \<and> favorites (fst (removeFavorite r2 (fst (removeFavorite r1 u s)) s))
       = favorites (fst (removeFavorite r1 u s))"
proof -
  let ?keep = "\<lambda>t. \<not> strict_eq (storyId t) (storyId s)"
  have first: "fst (removeFavorite r1 u s) = u\<lparr>favorites := filter ?keep (favorites u)\<rparr>"
    by (simp add: removeFavorite_def Let_def)
  have again: "filter ?keep (filter ?keep (favorites u)) = filter ?keep (favorites u)"
    by simp
  have "fst (removeFavorite r2 (u\<lparr>favorites := filter ?keep (favorites u)\<rparr>) s)
      = u\<lparr>favorites := filter ?keep (favorites u)\<rparr>"
    unfolding removeFavorite_def Let_def using again by simp
  with first show ?thesis by simp
qed

theorem removeFavorite_idempotent_witness:
  "fst (removeFavorite Rejected (fst (removeFavorite NotJson
      (demo_user [demo_story ''1'' ''http://a.com'', demo_story ''2'' ''http://b.com''] [] (JStr ''tok''))
      (demo_story ''1'' ''http://a.com''))) (demo_story ''1'' ''http://a.com''))
   = demo_user [demo_story ''2'' ''http://b.com''] [] (JStr ''tok'')"
  using removeFavorite_idempotent [of Rejected NotJson
      "demo_user [demo_story ''1'' ''http://a.com'', demo_story ''2'' ''http://b.com''] [] (JStr ''tok'')"
      "demo_story ''1'' ''http://a.com''"]
  by (simp add: removeFavorite_def demo_user_def demo_story_def Let_def)

text \<open>
  C9. addFavorite and removeFavorite change the favorites of the receiver and
  nothing else: putting the old favorites back gives the old User, and each of
  username, name, createdAt, ownStories and loginToken is as before. The story
  is not changed either: addFavorite stores it as it is, at the end, and
  removeFavorite keeps only entries that were there.
\<close>

theorem favorites_frame:
  "(fst (addFavorite r u s))\<lparr>favorites := favorites u\<rparr> = u
   \<and> (fst (removeFavorite r u s))\<lparr>favorites := favorites u\<rparr> = u
   \<and> user_username (fst (addFavorite r u s)) = user_username u
   \<and> user_name (fst (addFavorite r u s)) = user_name u
   \<and> user_createdAt (fst (addFavorite r u s)) = user_createdAt u
   \<and> ownStories (fst (addFavorite r u s)) = ownStories u
   \<and> loginToken (fst (addFavorite r u s)) = loginToken u
   \<and> user_username (fst (removeFavorite r u s)) = user_username u
   \<and> user_name (fst (removeFavorite r u s)) = user_name u
   \<and> user_createdAt (fst (removeFavorite r u s)) = user_createdAt u
   \<and> ownStories (fst (removeFavorite r u s)) = ownStories u
   \<and> loginToken (fst (removeFavorite r u s)) = loginToken u
   \<and> favorites (fst (addFavorite r u s)) = favorites u @ [s]
   \<and> set (favorites (fst (removeFavorite r u s))) \<subseteq> set (favorites u)"
proof -
  have add: "fst (addFavorite r u s) = u\<lparr>favorites := favorites u @ [s]\<rparr>"
    by (simp add: addFavorite_def Let_def)
  have remove: "fst (removeFavorite r u s)
      = u\<lparr>favorites := filter (\<lambda>t. \<not> strict_eq (storyId t) (storyId s)) (favorites u)\<rparr>"
    by (simp add: removeFavorite_def Let_def)
  have kept: "set (filter (\<lambda>t. \<not> strict_eq (storyId t) (storyId s)) (favorites u))
      \<subseteq> set (favorites u)"
    by auto
  show ?thesis unfolding add remove using kept by simp
qed

theorem favorites_frame_witness:
  "fst (addFavorite NotJson (demo_user [] [demo_story ''9'' ''http://o.com''] (JStr ''tok''))
         (demo_story ''1'' ''http://a.com''))
     = demo_user [demo_story ''1'' ''http://a.com''] [demo_story ''9'' ''http://o.com''] (JStr ''tok'')
   \<and> fst (removeFavorite NotJson
         (demo_user [demo_story ''1'' ''http://a.com''] [demo_story ''9'' ''http://o.com''] (JStr ''tok''))
         (demo_story ''1'' ''http://a.com''))
     = demo_user [] [demo_story ''9'' ''http://o.com''] (JStr ''tok'')"
  using favorites_frame [where r = NotJson
        and u = "demo_user [] [demo_story ''9'' ''http://o.com''] (JStr ''tok'')"
        and s = "demo_story ''1'' ''http://a.com''"]
    favorites_frame [where r = NotJson
        and u = "demo_user [demo_story ''1'' ''http://a.com''] [demo_story ''9'' ''http://o.com''] (JStr ''tok'')"
        and s = "demo_story ''1'' ''http://a.com''"]
  by (simp add: demo_user_def demo_story_def addFavorite_def removeFavorite_def Let_def)

subsection \<open>Session restoration\<close>

text \<open>
  C5. loginViaStoredCredentials never throws: for every reply of the service,
  every token and every username it returns a value. Whenever a step of its
  \<^verbatim>\<open>try\<close> block throws it returns \<^verbatim>\<open>null\<close>, and a User it returns carries the
  token that was passed in.
\<close>

theorem restore_never_raises:
  "(\<exists>res. loginViaStoredCredentials r token p_username = Inr res)
   \<and> (\<forall>e. loginViaStoredCredentials_try r token p_username = Inl e
          \<longrightarrow> loginViaStoredCredentials r token p_username = Inr None)
   \<and> (\<forall>u. loginViaStoredCredentials r token p_username = Inr (Some u) \<longrightarrow> loginToken u = token)"
  by (auto simp: loginViaStoredCredentials_def loginViaStoredCredentials_try_def User_new_def Let_def
      split: sum.splits if_splits)

text \<open>
  A stale token: the service answers with an error body, the read of
  \<^verbatim>\<open>user.username\<close> throws, the result is \<^verbatim>\<open>null\<close>. A good token: the User
  carries the stored token, not the one of the body.
\<close>

theorem restore_never_raises_witness:
  "loginViaStoredCredentials_try
       (Json (JObj 1 [(''error'', JObj 2 [(''status'', JNum 401), (''title'', JStr ''Unauthorized'')])]))
       (JStr ''stale'') (JStr ''u'') = Inl TypeError
   \<and> loginViaStoredCredentials
       (Json (JObj 1 [(''error'', JObj 2 [(''status'', JNum 401), (''title'', JStr ''Unauthorized'')])]))
       (JStr ''stale'') (JStr ''u'') = Inr None
   \<and> loginViaStoredCredentials (demo_profile [] []) (JStr ''stored'') (JStr ''u'')
       = Inr (Some (demo_user [] [] (JStr ''stored'')))
   \<and> loginToken (demo_user [] [] (JStr ''stored'')) = JStr ''stored''"
proof -
  have a: "loginViaStoredCredentials_try
       (Json (JObj 1 [(''error'', JObj 2 [(''status'', JNum 401), (''title'', JStr ''Unauthorized'')])]))
       (JStr ''stale'') (JStr ''u'') = Inl TypeError"
    by (simp add: loginViaStoredCredentials_try_def nullish_def own_def)
  have b: "loginViaStoredCredentials (demo_profile [] []) (JStr ''stored'') (JStr ''u'')
       = Inr (Some (demo_user [] [] (JStr ''stored'')))"
    by (simp add: loginViaStoredCredentials_def loginViaStoredCredentials_try_def demo_profile_def
        demo_user_def nullish_def own_def User_new_def)
  show ?thesis
    using a b
      restore_never_raises [of "Json (JObj 1 [(''error'', JObj 2 [(''status'', JNum 401), (''title'', JStr ''Unauthorized'')])])"
        "JStr ''stale''" "JStr ''u''"]
      restore_never_raises [of "demo_profile [] []" "JStr ''stored''" "JStr ''u''"]
    by simp
qed

subsection \<open>Story.getHostName\<close>

lemmas URL_std_defs =
  URL_basic_def URL_std_def parse_URL_def url_input_def c0_or_space_def tab_or_newline_def
  split_scheme_def scheme_char_def lower_alpha_def upper_alpha_def ascii_digit_def
  ascii_lower_def default_port_def parse_authority_def authority_end_def parse_hostport_def
  special_host_def left_open_def forbidden_domain_char_def opaque_host_def
  forbidden_host_char_def ends_in_number_def ipv4_parts_def ipv4_number_def number_in_def
  radix_digit_def digit_value_def ipv4_parse_def port_of_def

lemma getHostName_reads_host:
  "URL_new (url s) = Inr u \<Longrightarrow> getHostName URL_new s = Inr (host u)"
  by (simp add: getHostName_def)

lemma URL_basic_answer: "URL_std v = Some r \<Longrightarrow> URL_basic v = r"
  by (simp add: URL_basic_def)

lemma URL_std_no_scheme:
  "split_scheme (url_input link) = None \<Longrightarrow> URL_std (JStr link) = Some (Inl InvalidURL)"
  by (simp add: URL_std_def parse_URL_def)

lemma split_scheme_starts_with_letter:
  assumes "split_scheme s = Some (scheme, rest)"
  shows "s \<noteq> [] \<and> (lower_alpha (hd s) \<or> upper_alpha (hd s)) \<and> CHR '':'' \<in> set s"
proof (cases s)
  case Nil
  with assms show ?thesis by (simp add: split_scheme_def)
next
  case (Cons c cs)
  with assms have letter: "lower_alpha c \<or> upper_alpha c"
    by (auto simp: split_scheme_def split: if_splits)
  from assms Cons obtain r where "dropWhile scheme_char s = CHR '':'' # r"
    by (auto simp: split_scheme_def split: if_splits list.splits)
  then have "CHR '':'' \<in> set (dropWhile scheme_char s)" by simp
  then have "CHR '':'' \<in> set s" by (meson in_mono set_dropWhileD subsetI)
  with Cons letter show ?thesis by simp
qed

text \<open>
  C6. The claim fails on the code, against the code's own words: the method
  is named getHostName and documented as \<^verbatim>\<open>Parses hostname out of URL and
  returns it\<close>, and it returns \<^verbatim>\<open>.host\<close>, which carries the port. For the
  Story built from a record whose url is \<^verbatim>\<open>http://example.com:8080/x\<close> the
  host component of the parsed url (\<^verbatim>\<open>.hostname\<close>) is \<^verbatim>\<open>example.com\<close> and
  getHostName returns \<^verbatim>\<open>example.com:8080\<close>. On the url of the scenario,
  which has no port, the two agree: \<^verbatim>\<open>news.example.com\<close>.
\<close>

theorem getHostName_keeps_port:
  "Story_new (demo_record 7 ''1'' ''http://example.com:8080/x'')
     = Inr (demo_story ''1'' ''http://example.com:8080/x'')
   \<and> URL_std (JStr ''http://example.com:8080/x'')
     = Some (Inr \<lparr>url_host = Some ''example.com'', url_port = Some 8080\<rparr>)
   \<and> hostname \<lparr>url_host = Some ''example.com'', url_port = Some 8080\<rparr> = ''example.com''
   \<and> getHostName URL_basic (demo_story ''1'' ''http://example.com:8080/x'')
     = Inr ''example.com:8080''
   \<and> URL_std (JStr ''https://news.example.com/a/b'')
     = Some (Inr \<lparr>url_host = Some ''news.example.com'', url_port = None\<rparr>)
   \<and> getHostName URL_basic (demo_story ''1'' ''https://news.example.com/a/b'')
     = Inr ''news.example.com''"
proof -
  have port: "URL_std (JStr ''http://example.com:8080/x'')
     = Some (Inr \<lparr>url_host = Some ''example.com'', url_port = Some 8080\<rparr>)"
    by (simp add: URL_std_defs Let_def)
  have plain: "URL_std (JStr ''https://news.example.com/a/b'')
     = Some (Inr \<lparr>url_host = Some ''news.example.com'', url_port = None\<rparr>)"
    by (simp add: URL_std_defs Let_def)
  have "getHostName URL_basic (demo_story ''1'' ''http://example.com:8080/x'')
     = Inr ''example.com:8080''"
    using getHostName_reads_host [where URL_new = URL_basic, OF URL_basic_answer]
      port by (simp add: demo_story_def host_def)
  moreover have "getHostName URL_basic (demo_story ''1'' ''https://news.example.com/a/b'')
     = Inr ''news.example.com''"
    using getHostName_reads_host [where URL_new = URL_basic, OF URL_basic_answer]
      plain by (simp add: demo_story_def host_def)
  ultimately show ?thesis
    using port plain by (simp add: Story_new_demo_record hostname_def)
qed

text \<open>
  C7, as stated, fails: \<^verbatim>\<open>new URL\<close> repairs much that is no valid absolute URI.
  A url with a space in its path is none, and a url that is an array is not
  even a string; for both getHostName returns a host.
\<close>

theorem getHostName_repaired_url_counterexample:
  "\<not> could_be_absolute_URI (url (demo_story ''1'' ''https://news.example.com/a b''))
   \<and> getHostName URL_basic (demo_story ''1'' ''https://news.example.com/a b'')
       = Inr ''news.example.com''
   \<and> \<not> could_be_absolute_URI
         (url ((demo_story ''1'' [])\<lparr>url := JArr 5 [JStr ''https://news.example.com/a/b'']\<rparr>))
   \<and> getHostName URL_basic
         ((demo_story ''1'' [])\<lparr>url := JArr 5 [JStr ''https://news.example.com/a/b'']\<rparr>)
       = Inr ''news.example.com''"
proof -
  have spaced: "URL_std (JStr ''https://news.example.com/a b'')
     = Some (Inr \<lparr>url_host = Some ''news.example.com'', url_port = None\<rparr>)"
    by (simp add: URL_std_defs Let_def)
  have array: "URL_std (JArr 5 [JStr ''https://news.example.com/a/b''])
     = Some (Inr \<lparr>url_host = Some ''news.example.com'', url_port = None\<rparr>)"
    by (simp add: URL_std_defs nullish_def Let_def)
  have "getHostName URL_basic (demo_story ''1'' ''https://news.example.com/a b'')
       = Inr ''news.example.com''"
    using getHostName_reads_host [where URL_new = URL_basic, OF URL_basic_answer]
      spaced by (simp add: demo_story_def host_def)
  moreover have "getHostName URL_basic
         ((demo_story ''1'' [])\<lparr>url := JArr 5 [JStr ''https://news.example.com/a/b'']\<rparr>)
       = Inr ''news.example.com''"
    using getHostName_reads_host [where URL_new = URL_basic, OF URL_basic_answer]
      array by (simp add: demo_story_def host_def)
  ultimately show ?thesis
    by (simp add: demo_story_def uri_char_def lower_alpha_def upper_alpha_def ascii_digit_def)
qed

text \<open>
  C7, amended. getHostName throws exactly when \<^verbatim>\<open>new URL(this.url)\<close> throws, and
  then the same error: it catches nothing and returns no default, and a host
  it returns is the \<^verbatim>\<open>.host\<close> of the parsed url. \<^verbatim>\<open>new URL\<close> throws its
  \<^verbatim>\<open>TypeError\<close>, and so does getHostName, for every url that is \<^verbatim>\<open>undefined\<close>,
  \<^verbatim>\<open>null\<close>, a boolean, or a string that does not start with a scheme (a
  letter, then letters, digits, plus, minus or dots, then a colon) once the
  parser has trimmed it: free text, a relative reference, the empty string,
  any string without a colon.
\<close>

theorem getHostName_throws_what_URL_throws:
  "(getHostName URL_new s = Inl e \<longleftrightarrow> URL_new (url s) = Inl e)
   \<and> (getHostName URL_new s = Inr h \<longleftrightarrow> (\<exists>u. URL_new (url s) = Inr u \<and> h = host u))
   \<and> (url s = JStr link \<and> split_scheme (url_input link) = None
        \<longrightarrow> getHostName URL_basic s = Inl InvalidURL)
   \<and> (url s = JStr link \<and> CHR '':'' \<notin> set (url_input link)
        \<longrightarrow> getHostName URL_basic s = Inl InvalidURL)
   \<and> (url s = JUndefined \<or> url s = JNull \<or> url s = JBool b
        \<longrightarrow> getHostName URL_basic s = Inl InvalidURL)"
proof -
  have throws: "getHostName URL_new s = Inl e \<longleftrightarrow> URL_new (url s) = Inl e"
    by (cases "URL_new (url s)") (simp_all add: getHostName_def)
  have returns: "getHostName URL_new s = Inr h \<longleftrightarrow> (\<exists>u. URL_new (url s) = Inr u \<and> h = host u)"
    by (cases "URL_new (url s)") (auto simp: getHostName_def)
  have no_scheme: "getHostName URL_basic s = Inl InvalidURL"
    if "url s = JStr link" and "split_scheme (url_input link) = None"
  proof -
    from that have "URL_std (url s) = Some (Inl InvalidURL)" by (simp add: URL_std_no_scheme)
    then have "URL_basic (url s) = Inl InvalidURL" by (rule URL_basic_answer)
    then show ?thesis by (simp add: getHostName_def)
  qed
  have no_string: "getHostName URL_basic s = Inl InvalidURL"
    if "url s = JUndefined \<or> url s = JNull \<or> url s = JBool b"
  proof -
    from that have "URL_std (url s) = Some (Inl InvalidURL)"
      by (cases b) (auto simp: URL_std_defs)
    then have "URL_basic (url s) = Inl InvalidURL" by (rule URL_basic_answer)
    then show ?thesis by (simp add: getHostName_def)
  qed
  have no_colon: "split_scheme (url_input link) = None"
    if "CHR '':'' \<notin> set (url_input link)"
  proof (cases "split_scheme (url_input link)")
    case None
    then show ?thesis .
  next
    case (Some p)
    then have "CHR '':'' \<in> set (url_input link)"
      using split_scheme_starts_with_letter [of "url_input link" "fst p" "snd p"] by simp
    with that show ?thesis by simp
  qed
  have c3: "url s = JStr link \<and> split_scheme (url_input link) = None
      \<longrightarrow> getHostName URL_basic s = Inl InvalidURL"
    using no_scheme by blast
  have c4: "url s = JStr link \<and> CHR '':'' \<notin> set (url_input link)
      \<longrightarrow> getHostName URL_basic s = Inl InvalidURL"
  proof (intro impI, elim conjE)
    assume string: "url s = JStr link" and colon: "CHR '':'' \<notin> set (url_input link)"
    from colon have "split_scheme (url_input link) = None" by (rule no_colon)
    with string show "getHostName URL_basic s = Inl InvalidURL" by (rule no_scheme)
  qed
  have c5: "url s = JUndefined \<or> url s = JNull \<or> url s = JBool b
      \<longrightarrow> getHostName URL_basic s = Inl InvalidURL"
    using no_string by blast
  show ?thesis
    by (intro conjI) (rule throws, rule returns, rule c3, rule c4, rule c5)
qed

text \<open>Free text as the url, and a record that has no url at all.\<close>

theorem getHostName_throws_what_URL_throws_witness:
  "url (demo_story ''1'' ''not a url'') = JStr ''not a url''
   \<and> split_scheme (url_input ''not a url'') = None
   \<and> getHostName URL_basic (demo_story ''1'' ''not a url'') = Inl InvalidURL
   \<and> Story_new (JObj 3 [(''storyId'', JStr ''2'')])
       = Inr \<lparr>storyId = JStr ''2'', title = JUndefined, author = JUndefined, url = JUndefined,
              username = JUndefined, createdAt = JUndefined\<rparr>
   \<and> getHostName URL_basic
         \<lparr>storyId = JStr ''2'', title = JUndefined, author = JUndefined, url = JUndefined,
          username = JUndefined, createdAt = JUndefined\<rparr> = Inl InvalidURL"
proof -
  have a: "url (demo_story ''1'' ''not a url'') = JStr ''not a url''"
    by (simp add: demo_story_def)
  have b: "split_scheme (url_input ''not a url'') = None"
    by (simp add: URL_std_defs)
  have c: "Story_new (JObj 3 [(''storyId'', JStr ''2'')])
       = Inr \<lparr>storyId = JStr ''2'', title = JUndefined, author = JUndefined, url = JUndefined,
              username = JUndefined, createdAt = JUndefined\<rparr>"
    by (simp add: Story_new_def nullish_def own_def)
  show ?thesis
    using a b c
      getHostName_throws_what_URL_throws [where URL_new = URL_basic
        and s = "demo_story ''1'' ''not a url''" and link = "''not a url''"]
      getHostName_throws_what_URL_throws [where URL_new = URL_basic
        and s = "\<lparr>storyId = JStr ''2'', title = JUndefined, author = JUndefined,
          url = JUndefined, username = JUndefined, createdAt = JUndefined\<rparr>"]
    by simp
qed

subsection \<open>Building a User\<close>

text \<open>
  C8. When the body of the reply holds a \<^verbatim>\<open>user\<close> whose \<^verbatim>\<open>favorites\<close> and
  \<^verbatim>\<open>stories\<close> are arrays of records a Story can be built from, each of signup,
  login and loginViaStoredCredentials returns a User whose \<open>ownStories\<close> are
  the Stories built from the array under \<^verbatim>\<open>stories\<close> and whose \<open>favorites\<close>
  are those built from the array under \<^verbatim>\<open>favorites\<close>, element by element and
  in order.
\<close>

theorem stories_key_becomes_ownStories:
  assumes "r = Json userData" and "prop_of userData ''user'' = user"
    and "prop_of user ''favorites'' = JArr a fs" and "prop_of user ''stories'' = JArr b ss"
    and "map Story_new fs = map Inr F" and "map Story_new ss = map Inr S"
  shows "(\<exists>u. signup r p_username p_password p_name = Inr u \<and> favorites u = F \<and> ownStories u = S)
       \<and> (\<exists>u. login r p_username p_password = Inr u \<and> favorites u = F \<and> ownStories u = S)
       \<and> (\<exists>u. loginViaStoredCredentials r token p_username = Inr (Some u)
               \<and> favorites u = F \<and> ownStories u = S)"
proof -
  from assms(3) have nu: "\<not> nullish user" by (rule prop_of_JArr_not_nullish)
  have nd: "\<not> nullish userData"
  proof
    assume "nullish userData"
    then have "prop_of userData ''user'' = JUndefined" by (rule prop_of_nullish)
    with assms(2) nu show False by (simp add: nullish_def)
  qed
  let ?ps = "[(''username'', prop_of user ''username''), (''name'', prop_of user ''name''),
              (''createdAt'', prop_of user ''createdAt''), (''favorites'', prop_of user ''favorites''),
              (''ownStories'', prop_of user ''stories'')]"
  have f: "own ?ps ''favorites'' = JArr a fs" using assms(3) by (simp add: own_def)
  have s: "own ?ps ''ownStories'' = JArr b ss" using assms(4) by (simp add: own_def)
  have new: "\<exists>u. User_new ?ps t = Inr u \<and> favorites u = F \<and> ownStories u = S \<and> loginToken u = t" for t
    by (rule User_new_arrays [OF f s assms(5,6)])
  have "\<exists>u. signup r p_username p_password p_name = Inr u \<and> favorites u = F \<and> ownStories u = S"
    using new [of "prop_of userData ''token''"] assms(1,2) nu nd by (auto simp: signup_def Let_def)
  moreover have "\<exists>u. login r p_username p_password = Inr u \<and> favorites u = F \<and> ownStories u = S"
    using new [of "prop_of userData ''token''"] assms(1,2) nu nd by (auto simp: login_def Let_def)
  moreover have "\<exists>u. loginViaStoredCredentials r token p_username = Inr (Some u)
      \<and> favorites u = F \<and> ownStories u = S"
    using new [of token] assms(1,2) nu nd
    by (auto simp: loginViaStoredCredentials_def loginViaStoredCredentials_try_def Let_def)
  ultimately show ?thesis by blast
qed

theorem stories_key_becomes_ownStories_witness:
  "(\<exists>u. signup (demo_profile [demo_record 5 ''1'' ''http://a.com'']
                   [demo_record 6 ''2'' ''http://b.com'', demo_record 7 ''3'' ''http://c.com''])
            (JStr ''u'') (JStr ''pw'') (JStr ''N'') = Inr u
         \<and> favorites u = [demo_story ''1'' ''http://a.com'']
         \<and> ownStories u = [demo_story ''2'' ''http://b.com'', demo_story ''3'' ''http://c.com''])
   \<and> (\<exists>u. login (demo_profile [demo_record 5 ''1'' ''http://a.com'']
                   [demo_record 6 ''2'' ''http://b.com'', demo_record 7 ''3'' ''http://c.com''])
            (JStr ''u'') (JStr ''pw'') = Inr u
         \<and> favorites u = [demo_story ''1'' ''http://a.com'']
         \<and> ownStories u = [demo_story ''2'' ''http://b.com'', demo_story ''3'' ''http://c.com''])
   \<and> (\<exists>u. loginViaStoredCredentials (demo_profile [demo_record 5 ''1'' ''http://a.com'']
                   [demo_record 6 ''2'' ''http://b.com'', demo_record 7 ''3'' ''http://c.com''])
            (JStr ''stored'') (JStr ''u'') = Inr (Some u)
         \<and> favorites u = [demo_story ''1'' ''http://a.com'']
         \<and> ownStories u = [demo_story ''2'' ''http://b.com'', demo_story ''3'' ''http://c.com''])"
proof -
  let ?fs = "[demo_record 5 ''1'' ''http://a.com'']"
  let ?ss = "[demo_record 6 ''2'' ''http://b.com'', demo_record 7 ''3'' ''http://c.com'']"
  let ?user = "JObj 2 [(''username'', JStr ''u''), (''name'', JStr ''N''),
                       (''createdAt'', JStr ''2024-04-01T09:00:00.000Z''),
                       (''favorites'', JArr 3 ?fs), (''stories'', JArr 4 ?ss)]"
  let ?data = "JObj 1 [(''user'', ?user), (''token'', JStr ''tok'')]"
  have r: "demo_profile ?fs ?ss = Json ?data" by (simp add: demo_profile_def)
  have u: "prop_of ?data ''user'' = ?user" by (simp add: own_def)
  have f: "prop_of ?user ''favorites'' = JArr 3 ?fs" by (simp add: own_def)
  have s: "prop_of ?user ''stories'' = JArr 4 ?ss" by (simp add: own_def)
  have F: "map Story_new ?fs = map Inr [demo_story ''1'' ''http://a.com'']"
    by (simp add: Story_new_demo_record)
  have S: "map Story_new ?ss = map Inr [demo_story ''2'' ''http://b.com'', demo_story ''3'' ''http://c.com'']"
    by (simp add: Story_new_demo_record)
  show ?thesis
    by (rule stories_key_becomes_ownStories [OF r u f s F S])
qed

text \<open>
  C10. The User constructor takes an absent \<^verbatim>\<open>favorites\<close> or \<^verbatim>\<open>ownStories\<close>
  (the property is omitted, or \<^verbatim>\<open>undefined\<close>) as the empty array: with both
  absent, or one absent and the other an array of records a Story can be
  built from, it returns a User. In every User it returns, each of the two
  sequences is empty where the property was absent, and otherwise holds the
  Stories built from the elements of the array given, in order.
\<close>

theorem User_new_defaults:
  "(own ps ''favorites'' = JUndefined \<and> own ps ''ownStories'' = JUndefined \<longrightarrow>
      User_new ps token =
        Inr \<lparr>user_username = own ps ''username'', user_name = own ps ''name'',
              user_createdAt = own ps ''createdAt'', favorites = [], ownStories = [],
              loginToken = token\<rparr>)
   \<and> (own ps ''favorites'' = JUndefined \<and> own ps ''ownStories'' = JArr b ss
        \<and> map Story_new ss = map Inr S \<longrightarrow>
      User_new ps token =
        Inr \<lparr>user_username = own ps ''username'', user_name = own ps ''name'',
              user_createdAt = own ps ''createdAt'', favorites = [], ownStories = S,
              loginToken = token\<rparr>)
   \<and> (own ps ''favorites'' = JArr a fs \<and> map Story_new fs = map Inr F
        \<and> own ps ''ownStories'' = JUndefined \<longrightarrow>
      User_new ps token =
        Inr \<lparr>user_username = own ps ''username'', user_name = own ps ''name'',
              user_createdAt = own ps ''createdAt'', favorites = F, ownStories = [],
              loginToken = token\<rparr>)
   \<and> (User_new ps token = Inr u \<longrightarrow>
        (own ps ''favorites'' = JUndefined \<and> favorites u = []
           \<or> (\<exists>a fs. own ps ''favorites'' = JArr a fs \<and> map Story_new fs = map Inr (favorites u)))
      \<and> (own ps ''ownStories'' = JUndefined \<and> ownStories u = []
           \<or> (\<exists>a ss. own ps ''ownStories'' = JArr a ss \<and> map Story_new ss = map Inr (ownStories u))))"
proof -
  have ok: "map Story_new xs = map Inr X \<Longrightarrow> map_Story xs = Inr X" for xs X
    by (simp add: map_Story_elementwise)
  have "User_new ps token = Inr u \<Longrightarrow> stories_or_default (own ps ''favorites'') = Inr (favorites u)
      \<and> stories_or_default (own ps ''ownStories'') = Inr (ownStories u)"
    by (auto simp: User_new_def split: sum.splits)
  then show ?thesis
    by (auto simp: User_new_def ok dest: stories_or_default_cases)
qed

theorem User_new_defaults_witness:
  "own [(''username'', JStr ''u'')] ''favorites'' = JUndefined
   \<and> own [(''username'', JStr ''u'')] ''ownStories'' = JUndefined
   \<and> User_new [(''username'', JStr ''u'')] (JStr ''tok'')
       = Inr \<lparr>user_username = JStr ''u'', user_name = JUndefined, user_createdAt = JUndefined,
              favorites = [], ownStories = [], loginToken = JStr ''tok''\<rparr>"
proof -
  have a: "own [(''username'', JStr ''u'')] ''favorites'' = JUndefined" by (simp add: own_def)
  have b: "own [(''username'', JStr ''u'')] ''ownStories'' = JUndefined" by (simp add: own_def)
  show ?thesis
    using a b User_new_defaults [of "[(''username'', JStr ''u'')]" "JStr ''tok''"]
    by (simp add: own_def)
qed

end
